theory Spec2Isabelle
  imports Complex_Main "HOL-Library.Char_ord" "HOL-Library.List_Lexorder"
    "HOL-Library.Product_Lexorder" "HOL-Library.Multiset"
begin

section \<open>EcoStock: the inventory pipeline of app.py\<close>

text \<open>
  The development embeds the data-processing part of \<^verbatim>\<open>app.py\<close>: loading the
  inventory table, the demand model's encoding and prediction, the risk classifier,
  the category filter, the at-risk table, and the two handlers that rewrite
  \<^verbatim>\<open>mock_inventory.csv\<close>.

  Conventions of the embedding.
  \<^item> A pandas DataFrame is the list of its rows, in row order; a Series (a column) is a
    list of values of the same length. Vectorised operators work position by position.
  \<^item> A row is a record with one field per column. The stages of the script add columns,
    so each stage has its own record type, extending the one before.
  \<^item> Every cell holds a value of its column's type; missing cells (NaN, NaT) and the
    text layer of the CSV file (quoting, type inference) are not part of the model.
  \<^item> A float64 is read as the real number it denotes and arithmetic is exact.
  \<^item> A timestamp is an integer number of microseconds since the epoch.
\<close>

subsection \<open>Rows\<close>

text \<open>The eight columns of the CSV file, which are also the keys of \<^verbatim>\<open>new_entry\<close>.\<close>

record inventory_row =
  Product :: string
  Category :: string
  StockQty :: int
  WeeklySales :: real
  ExpiryDate :: int
  StoreID :: string
  Weather :: string
  HolidayFlag :: int

text \<open>After \<^verbatim>\<open>load_data\<close>: the column \<^verbatim>\<open>DaysToExpire\<close> is added.\<close>

record loaded_row = inventory_row +
  DaysToExpire :: int

text \<open>After \<^verbatim>\<open>apply_predictions\<close>: the column \<^verbatim>\<open>PredictedDemand\<close> is added.\<close>

record predicted_row = loaded_row +
  PredictedDemand :: real

text \<open>After \<^verbatim>\<open>classify_risk\<close>: the column \<^verbatim>\<open>RiskLevel\<close> is added.\<close>

record annotated_row = predicted_row +
  RiskLevel :: string

subsection \<open>Vectorised operators on columns\<close>

text \<open>\<^verbatim>\<open>a & b\<close>, \<^verbatim>\<open>a | b\<close> and \<^verbatim>\<open>~a\<close> on boolean Series.\<close>

definition series_and :: "bool list \<Rightarrow> bool list \<Rightarrow> bool list" where
  "series_and a b = map2 (\<and>) a b"

definition series_or :: "bool list \<Rightarrow> bool list \<Rightarrow> bool list" where
  "series_or a b = map2 (\<or>) a b"

definition series_not :: "bool list \<Rightarrow> bool list" where
  "series_not a = map Not a"

text \<open>\<^verbatim>\<open>a < b\<close> on two numeric Series, and a Series compared with a scalar.\<close>

definition series_lt :: "real list \<Rightarrow> real list \<Rightarrow> bool list" where
  "series_lt a b = map2 (<) a b"

definition series_lt_const :: "int list \<Rightarrow> int \<Rightarrow> bool list" where
  "series_lt_const a c = map (\<lambda>x. x < c) a"

definition series_ge_const :: "int list \<Rightarrow> int \<Rightarrow> bool list" where
  "series_ge_const a c = map (\<lambda>x. c \<le> x) a"

text \<open>\<^verbatim>\<open>c * s\<close>: a float scalar times an integer Series gives a float Series.\<close>

definition scale_series :: "real \<Rightarrow> int list \<Rightarrow> real list" where
  "scale_series c s = map (\<lambda>q. c * real_of_int q) s"

text \<open>\<^verbatim>\<open>s == v\<close> and \<^verbatim>\<open>s.isin(vs)\<close>.\<close>

definition series_eq_const :: "'a list \<Rightarrow> 'a \<Rightarrow> bool list" where
  "series_eq_const s v = map (\<lambda>x. x = v) s"

definition isin :: "'a list \<Rightarrow> 'a list \<Rightarrow> bool list" where
  "isin s vs = map (\<lambda>x. x \<in> set vs) s"

text \<open>
  \<^verbatim>\<open>df[mask]\<close>: boolean indexing keeps the rows whose mask entry is true, in order.
  \<^verbatim>\<open>reset_index(drop=True)\<close> renumbers the index and leaves the rows as they are, so
  it is the identity on a list of rows.
\<close>

definition mask_rows :: "'a list \<Rightarrow> bool list \<Rightarrow> 'a list" where
  "mask_rows df flags = map fst (filter snd (zip df flags))"

text \<open>
  \<^verbatim>\<open>np.select(condlist, choicelist, default)\<close>: at each position the choice of the
  first condition that is true there, the default when none is. (numpy refuses condition
  and choice lists of different lengths; the script passes two literal lists of length
  two, and the last equation below is never reached from it.)
\<close>

fun select_at :: "bool list list \<Rightarrow> 'a list \<Rightarrow> 'a \<Rightarrow> nat \<Rightarrow> 'a" where
  "select_at (c # cs) (v # vs) d i = (if c ! i then v else select_at cs vs d i)"
| "select_at [] vs d i = d"
| "select_at cs [] d i = d"

definition np_select :: "bool list list \<Rightarrow> 'a list \<Rightarrow> 'a \<Rightarrow> nat \<Rightarrow> 'a list" where
  "np_select condlist choicelist d n = map (select_at condlist choicelist d) [0..<n]"

subsection \<open>The risk classifier\<close>

text \<open>
  \<^verbatim>\<open>
  def classify_risk(df):
      conditions = [
          (df['PredictedDemand'] < 0.7 * df['StockQty']) & (df['DaysToExpire'] < 5),
          (df['PredictedDemand'] < 0.9 * df['StockQty']) |
              ((df['DaysToExpire'] >= 5) & (df['DaysToExpire'] < 8))
      ]
      choices = ['HIGH','MEDIUM']
      df['RiskLevel'] = np.select(conditions, choices, default='LOW')
      return df
  \<close>
\<close>

definition set_RiskLevel :: "predicted_row list \<Rightarrow> string list \<Rightarrow> annotated_row list" where
  "set_RiskLevel df col = map2 (\<lambda>r v. predicted_row.extend r (annotated_row.fields v)) df col"

definition classify_risk :: "predicted_row list \<Rightarrow> annotated_row list" where
  "classify_risk df =
     (let conditions =
        [series_and
           (series_lt (map PredictedDemand df) (scale_series 0.7 (map StockQty df)))
           (series_lt_const (map DaysToExpire df) 5),
         series_or
           (series_lt (map PredictedDemand df) (scale_series 0.9 (map StockQty df)))
           (series_and (series_ge_const (map DaysToExpire df) 5)
                       (series_lt_const (map DaysToExpire df) 8))];
          choices = [''HIGH'', ''MEDIUM'']
      in set_RiskLevel df (np_select conditions choices ''LOW'' (length df)))"

text \<open>
  The rule of the specification, row by row, in its words: HIGH when the predicted
  demand is below 0.7 of the stock and fewer than 5 days remain; otherwise MEDIUM when
  the predicted demand is below 0.9 of the stock or between 5 and 7 days remain;
  otherwise LOW. It is compared with \<open>classify_risk\<close> in \<open>classify_risk_rowwise\<close>.
\<close>

definition risk_rule :: "real \<Rightarrow> int \<Rightarrow> int \<Rightarrow> string" where
  "risk_rule demand stock days =
     (if demand < 0.7 * real_of_int stock \<and> days < 5 then ''HIGH''
      else if demand < 0.9 * real_of_int stock \<or> (5 \<le> days \<and> days < 8) then ''MEDIUM''
      else ''LOW'')"

definition with_risk :: "predicted_row \<Rightarrow> annotated_row" where
  "with_risk r =
     predicted_row.extend r
       (annotated_row.fields (risk_rule (PredictedDemand r) (StockQty r) (DaysToExpire r)))"

subsection \<open>Time\<close>

text \<open>
  \<^verbatim>\<open>(df['ExpiryDate'] - datetime.today()).dt.days\<close>: the days component of a
  timedelta is its floor in whole days, also when the difference is negative.
  \<^verbatim>\<open>datetime.today()\<close> carries the time of day. \<^verbatim>\<open>normalize()\<close> sets the time of day
  to midnight.
\<close>

definition us_per_day :: int where
  "us_per_day = 86400000000"

definition days_between :: "int \<Rightarrow> int \<Rightarrow> int" where
  "days_between expiry today = (expiry - today) div us_per_day"

definition normalize_date :: "int \<Rightarrow> int" where
  "normalize_date t = t - t mod us_per_day"


subsection \<open>Files, session state and failures\<close>

text \<open>
  The script reads and writes CSV files and reads the session state. The world holds
  the files by path (no entry: the file does not exist) and the session's
  \<^verbatim>\<open>manual_data\<close> (\<open>None\<close>: the key is not set). An action returns a value or
  raises, and returns the world it leaves.
\<close>

datatype error = FileNotFoundError | KeyError | ValueError

record world =
  files :: "string \<Rightarrow> inventory_row list option"
  manual_data :: "inventory_row list option"

type_synonym 'a action = "world \<Rightarrow> (error + 'a) \<times> world"

definition succeed :: "'a \<Rightarrow> 'a action" where
  "succeed x w = (Inr x, w)"

definition fail_with :: "error \<Rightarrow> 'a action" where
  "fail_with e w = (Inl e, w)"

definition and_then :: "'a action \<Rightarrow> ('a \<Rightarrow> 'b action) \<Rightarrow> 'b action" where
  "and_then m f w = (case m w of (Inl e, w') \<Rightarrow> (Inl e, w') | (Inr x, w') \<Rightarrow> f x w')"

text \<open>\<^verbatim>\<open>try: m  except ...: h\<close>; the handler runs in the world the failure left.\<close>

definition try_except :: "'a action \<Rightarrow> (error \<Rightarrow> 'a action) \<Rightarrow> 'a action" where
  "try_except m h w = (case m w of (Inl e, w') \<Rightarrow> h e w' | (Inr x, w') \<Rightarrow> (Inr x, w'))"

definition lift :: "error + 'a \<Rightarrow> 'a action" where
  "lift r w = (r, w)"

definition read_csv :: "string \<Rightarrow> inventory_row list action" where
  "read_csv path w =
     (case files w path of None \<Rightarrow> (Inl FileNotFoundError, w) | Some rows \<Rightarrow> (Inr rows, w))"

definition to_csv :: "string \<Rightarrow> inventory_row list \<Rightarrow> unit action" where
  "to_csv path rows w = (Inr (), w\<lparr>files := (files w)(path \<mapsto> rows)\<rparr>)"

definition session_get_manual_data :: "inventory_row list option action" where
  "session_get_manual_data w = (Inr (manual_data w), w)"


subsection \<open>Loading\<close>

text \<open>
  \<^verbatim>\<open>
  def load_data(uploaded_file):
      if uploaded_file is not None:
          df = pd.read_csv(uploaded_file)
      else:
          df = pd.read_csv("mock_inventory.csv")
      df['ExpiryDate'] = pd.to_datetime(df['ExpiryDate'])
      df['DaysToExpire'] = (df['ExpiryDate'] - datetime.today()).dt.days
      return df
  \<close>
  The uploaded file is a value the upload widget hands to the script, not a file of the
  world; \<open>today\<close> is what \<^verbatim>\<open>datetime.today()\<close> returns at this call.
\<close>

definition set_DaysToExpire :: "inventory_row list \<Rightarrow> int list \<Rightarrow> loaded_row list" where
  "set_DaysToExpire df col = map2 (\<lambda>r v. inventory_row.extend r (loaded_row.fields v)) df col"

definition add_DaysToExpire :: "int \<Rightarrow> inventory_row list \<Rightarrow> loaded_row list" where
  "add_DaysToExpire today df =
     set_DaysToExpire df (map (\<lambda>e. days_between e today) (map ExpiryDate df))"

definition load_data :: "inventory_row list option \<Rightarrow> int \<Rightarrow> loaded_row list action" where
  "load_data uploaded_file today =
     and_then (case uploaded_file of
                 Some rows \<Rightarrow> succeed rows
               | None \<Rightarrow> read_csv ''mock_inventory.csv'')
       (\<lambda>df. succeed (add_DaysToExpire today df))"

subsection \<open>The demand model\<close>

text \<open>
  \<^verbatim>\<open>
  def train_model(df):
      X = df[['Category', 'StoreID', 'Weather', 'HolidayFlag']]
      y = df['WeeklySales']
      preprocessor = ColumnTransformer(
          transformers=[('cat', OneHotEncoder(handle_unknown='ignore'),
                         ['Category', 'StoreID', 'Weather'])],
          remainder='passthrough')
      model = Pipeline(steps=[('preprocessor', preprocessor),
                              ('regressor', LinearRegression())])
      model.fit(X, y)
      return model
  \<close>
  A row of \<open>X\<close> is the tuple of the four feature columns. The fitted encoder holds, for
  each of the three encoded columns, the values it saw (sorted, without duplicates); the
  fitted regressor holds one coefficient per encoded feature and an intercept. The
  encoded row is the three indicator blocks in the order of the transformer's columns,
  then the passed-through \<^verbatim>\<open>HolidayFlag\<close>.

  The least-squares solver itself is library code: \<open>train_model\<close> takes it as the
  parameter \<open>linreg\<close>, which returns coefficients and intercept or fails.
\<close>

type_synonym features = "string \<times> string \<times> string \<times> int"

definition features_of :: "'a loaded_row_scheme \<Rightarrow> features" where
  "features_of r = (Category r, StoreID r, Weather r, HolidayFlag r)"

datatype handle_unknown = Raise_on_unknown | Ignore

record fitted_model =
  Category_values :: "string list"
  StoreID_values :: "string list"
  Weather_values :: "string list"
  coef :: "real list"
  intercept :: real

type_synonym regressor = "real list list \<Rightarrow> real list \<Rightarrow> error + (real list \<times> real)"

definition one_hot :: "string list \<Rightarrow> string \<Rightarrow> real list" where
  "one_hot cats v = map (\<lambda>c. if c = v then 1 else 0) cats"

text \<open>
  \<^verbatim>\<open>OneHotEncoder.transform\<close> on one column: a value that was not seen by
  \<^verbatim>\<open>fit\<close> raises under \<^verbatim>\<open>handle_unknown='error'\<close> and gives a block of zeros under
  \<^verbatim>\<open>handle_unknown='ignore'\<close>.
\<close>

definition encode_value :: "handle_unknown \<Rightarrow> string list \<Rightarrow> string \<Rightarrow> error + real list" where
  "encode_value hu cats v =
     (if v \<in> set cats then Inr (one_hot cats v)
      else (case hu of
              Raise_on_unknown \<Rightarrow> Inl ValueError
            | Ignore \<Rightarrow> Inr (replicate (length cats) 0)))"

definition transform_row :: "handle_unknown \<Rightarrow> fitted_model \<Rightarrow> features \<Rightarrow> error + real list" where
  "transform_row hu m x =
     (case x of (c, s, w, h) \<Rightarrow>
        (case encode_value hu (Category_values m) c of Inl e \<Rightarrow> Inl e | Inr a \<Rightarrow>
        (case encode_value hu (StoreID_values m) s of Inl e \<Rightarrow> Inl e | Inr b \<Rightarrow>
        (case encode_value hu (Weather_values m) w of Inl e \<Rightarrow> Inl e | Inr d \<Rightarrow>
           Inr (a @ b @ d @ [real_of_int h])))))"

definition dot :: "real list \<Rightarrow> real list \<Rightarrow> real" where
  "dot u v = sum_list (map2 (*) u v)"

text \<open>
  \<^verbatim>\<open>LinearRegression.predict\<close> on one encoded row; a row whose width is not the number
  of coefficients is refused.
\<close>

definition predict_row :: "fitted_model \<Rightarrow> features \<Rightarrow> error + real" where
  "predict_row m x =
     (case transform_row Ignore m x of
        Inl e \<Rightarrow> Inl e
      | Inr v \<Rightarrow> if length v = length (coef m) then Inr (dot (coef m) v + intercept m)
                 else Inl ValueError)"

text \<open>A computation over all rows fails as a whole with the first row's failure.\<close>

fun collect :: "(error + 'a) list \<Rightarrow> error + 'a list" where
  "collect [] = Inr []"
| "collect (Inl e # rs) = Inl e"
| "collect (Inr x # rs) = (case collect rs of Inl e \<Rightarrow> Inl e | Inr xs \<Rightarrow> Inr (x # xs))"

definition predict :: "fitted_model \<Rightarrow> features list \<Rightarrow> error + real list" where
  "predict m X = collect (map (predict_row m) X)"

text \<open>
  \<^verbatim>\<open>.round(2)\<close>: numpy scales by 100, rounds to the nearest integer with ties to the
  even one, and scales back.
\<close>

definition rint :: "real \<Rightarrow> int" where
  "rint x =
     (let f = \<lfloor>x\<rfloor>; d = x - real_of_int f
      in if d < 1 / 2 then f else if 1 / 2 < d then f + 1 else if even f then f else f + 1)"

definition round2 :: "real \<Rightarrow> real" where
  "round2 x = real_of_int (rint (x * 100)) / 100"

text \<open>\<^verbatim>\<open>Series.unique()\<close>: the distinct values in the order of their first appearance.\<close>

definition unique :: "'a list \<Rightarrow> 'a list" where
  "unique xs = rev (remdups (rev xs))"

definition fit_categories :: "string list \<Rightarrow> string list" where
  "fit_categories col = sort (unique col)"

definition train_model :: "regressor \<Rightarrow> loaded_row list \<Rightarrow> error + fitted_model" where
  "train_model linreg df =
     (let X = map features_of df;
          y = map WeeklySales df;
          enc = \<lparr>Category_values = fit_categories (map Category df),
                 StoreID_values = fit_categories (map StoreID df),
                 Weather_values = fit_categories (map Weather df),
                 coef = [], intercept = 0\<rparr>
      in case collect (map (transform_row Ignore enc) X) of
           Inl e \<Rightarrow> Inl e
         | Inr Xt \<Rightarrow>
             (case linreg Xt y of
                Inl e \<Rightarrow> Inl e
              | Inr (c, b) \<Rightarrow> Inr (enc\<lparr>coef := c, intercept := b\<rparr>)))"

text \<open>
  \<^verbatim>\<open>
  def apply_predictions(df, model):
      X = df[['Category', 'StoreID', 'Weather', 'HolidayFlag']]
      df['PredictedDemand'] = model.predict(X).round(2)
      return df
  \<close>
\<close>

definition set_PredictedDemand :: "loaded_row list \<Rightarrow> real list \<Rightarrow> predicted_row list" where
  "set_PredictedDemand df col = map2 (\<lambda>r v. loaded_row.extend r (predicted_row.fields v)) df col"

definition apply_predictions :: "loaded_row list \<Rightarrow> fitted_model \<Rightarrow> error + predicted_row list" where
  "apply_predictions df model =
     (let X = map features_of df
      in case predict model X of
           Inl e \<Rightarrow> Inl e
         | Inr p \<Rightarrow> Inr (set_PredictedDemand df (map round2 p)))"

subsection \<open>The pipeline run\<close>

text \<open>
  \<^verbatim>\<open>
  df = load_data(uploaded_file)
  if st.session_state.get("manual_data"):
      manual_df = pd.DataFrame(st.session_state.manual_data)
      manual_df['ExpiryDate'] = pd.to_datetime(manual_df['ExpiryDate'])
      manual_df['DaysToExpire'] = (manual_df['ExpiryDate'] - datetime.today()).dt.days
      df = pd.concat([df, manual_df], ignore_index=True)
  model = train_model(df)
  df = apply_predictions(df, model)
  df = classify_risk(df)
  \<close>
  The clock is read twice, once in \<^verbatim>\<open>load_data\<close> and once for the staged entries:
  \<open>today\<close> and \<open>today'\<close>. A missing or empty \<^verbatim>\<open>manual_data\<close> is falsy.
\<close>

definition pipeline_run ::
  "regressor \<Rightarrow> inventory_row list option \<Rightarrow> int \<Rightarrow> int \<Rightarrow> annotated_row list action" where
  "pipeline_run linreg uploaded_file today today' =
     and_then (load_data uploaded_file today) (\<lambda>df.
     and_then session_get_manual_data (\<lambda>manual.
     and_then (succeed (case manual of
                          None \<Rightarrow> df
                        | Some entries \<Rightarrow>
                            if entries \<noteq> [] then df @ add_DaysToExpire today' entries
                            else df)) (\<lambda>df.
     and_then (lift (train_model linreg df)) (\<lambda>model.
     and_then (lift (apply_predictions df model)) (\<lambda>df.
     succeed (classify_risk df))))))"

subsection \<open>Category filter and at-risk table\<close>

text \<open>
  \<^verbatim>\<open>
  filtered_df = df[df['Category'].isin(selected_category)].reset_index(drop=True) \
                if selected_category else df
  at_risk = filtered_df[filtered_df['RiskLevel'].isin(['HIGH', 'MEDIUM'])].reset_index(drop=True)
  at_risk = at_risk.sort_values(by=['RiskLevel', 'DaysToExpire'])
  \<close>
  An empty selection is falsy. \<^verbatim>\<open>sort_values\<close> on two columns sorts ascending by the
  pair of keys and keeps the order of rows with equal keys; \<^verbatim>\<open>RiskLevel\<close> is a column of
  strings, compared as strings.
\<close>

definition filtered_df :: "annotated_row list \<Rightarrow> string list \<Rightarrow> annotated_row list" where
  "filtered_df df selected_category =
     (if selected_category \<noteq> [] then mask_rows df (isin (map Category df) selected_category)
      else df)"

definition sort_values :: "annotated_row list \<Rightarrow> annotated_row list" where
  "sort_values df = sort_key (\<lambda>r. (RiskLevel r, DaysToExpire r)) df"

definition at_risk :: "annotated_row list \<Rightarrow> annotated_row list" where
  "at_risk fdf = sort_values (mask_rows fdf (isin (map RiskLevel fdf) [''HIGH'', ''MEDIUM'']))"


text \<open>One render: the pipeline run, then the filter and the at-risk table.\<close>

definition render ::
  "regressor \<Rightarrow> inventory_row list option \<Rightarrow> int \<Rightarrow> int \<Rightarrow> string list
     \<Rightarrow> (annotated_row list \<times> annotated_row list) action" where
  "render linreg uploaded_file today today' selected_category =
     and_then (pipeline_run linreg uploaded_file today today') (\<lambda>df.
       succeed (filtered_df df selected_category, at_risk (filtered_df df selected_category)))"

subsection \<open>Adding a product\<close>




subsection \<open>Deleting a product\<close>

text \<open>
  \<^verbatim>\<open>
  if st.button("Confirm Delete"):
      try:
          full_df = pd.read_csv("mock_inventory.csv")
          full_df['ExpiryDate'] = pd.to_datetime(full_df['ExpiryDate'])
          row = filtered_df.loc[st.session_state.selected_idx]
          exp = pd.to_datetime(row['ExpiryDate']).normalize()
          condition = (
              (full_df['Product'] == row['Product']) &
              (full_df['Category'] == row['Category']) &
              (full_df['StoreID'] == row['StoreID']) &
              (full_df['ExpiryDate'].dt.normalize() == exp)
          )
          updated_df = full_df[~condition]
          updated_df.to_csv("mock_inventory.csv", index=False)
          st.success(...)
      except Exception as e:
          st.error(f"Error deleting entry: {e}")
  \<close>
  \<^verbatim>\<open>filtered_df.loc[i]\<close> raises \<^verbatim>\<open>KeyError\<close> when \<open>i\<close> is not a row label of the
  frame. The handler ends with one of two messages and never raises.
\<close>

datatype message = Success_message | Error_message error

definition loc :: "'a list \<Rightarrow> nat \<Rightarrow> 'a action" where
  "loc df i = (if i < length df then succeed (df ! i) else fail_with KeyError)"

text \<open>The four values a record is matched on.\<close>

type_synonym identity = "string \<times> string \<times> string \<times> int"

definition identity_of :: "'a inventory_row_scheme \<Rightarrow> identity" where
  "identity_of r = (Product r, Category r, StoreID r, normalize_date (ExpiryDate r))"

definition delete_matching :: "identity \<Rightarrow> inventory_row list \<Rightarrow> inventory_row list" where
  "delete_matching k full_df =
     (case k of (p, c, s, expiry) \<Rightarrow>
        (let condition =
               series_and
                 (series_and
                    (series_and (series_eq_const (map Product full_df) p)
                                (series_eq_const (map Category full_df) c))
                    (series_eq_const (map StoreID full_df) s))
                 (series_eq_const (map normalize_date (map ExpiryDate full_df)) expiry)
         in mask_rows full_df (series_not condition)))"

definition confirm_delete :: "annotated_row list \<Rightarrow> nat \<Rightarrow> message action" where
  "confirm_delete fdf selected_idx =
     try_except
       (and_then (read_csv ''mock_inventory.csv'') (\<lambda>full_df.
        and_then (loc fdf selected_idx) (\<lambda>row.
        and_then (to_csv ''mock_inventory.csv''
                    (delete_matching
                       (Product row, Category row, StoreID row, normalize_date (ExpiryDate row))
                       full_df)) (\<lambda>u.
        succeed Success_message))))
       (\<lambda>e. succeed (Error_message e))"


subsection \<open>Row-wise views\<close>

text \<open>
  What the column assignment of \<open>load_data\<close> does to one row, and the rows of the store
  file (none when the file does not exist). Both are used to state results.
\<close>

definition with_days :: "int \<Rightarrow> inventory_row \<Rightarrow> loaded_row" where
  "with_days today r =
     inventory_row.extend r (loaded_row.fields (days_between (ExpiryDate r) today))"

definition stored_rows :: "world \<Rightarrow> inventory_row list" where
  "stored_rows w = (case files w ''mock_inventory.csv'' of None \<Rightarrow> [] | Some rows \<Rightarrow> rows)"

subsection \<open>Example data\<close>

text \<open>The test vectors of the specification, and an already expired product.\<close>

definition ex_row :: "string \<Rightarrow> int \<Rightarrow> real \<Rightarrow> int \<Rightarrow> predicted_row" where
  "ex_row p stock demand days =
     \<lparr>Product = p, Category = ''Dairy'', StockQty = stock, WeeklySales = 50,
      ExpiryDate = 0, StoreID = ''S01'', Weather = ''Sunny'', HolidayFlag = 0,
      DaysToExpire = days, PredictedDemand = demand\<rparr>"

definition ex_predicted :: "predicted_row list" where
  "ex_predicted = [ex_row ''Milk'' 100 65 3, ex_row ''Bread'' 100 85 20,
                   ex_row ''Juice'' 100 95 20, ex_row ''Cheese'' 100 65 20,
                   ex_row ''Yoghurt'' 100 65 (-2)]"


text \<open>A store of three rows; the third is the first product again, entered with a time of day.\<close>

definition ex_stored :: "string \<Rightarrow> string \<Rightarrow> string \<Rightarrow> int \<Rightarrow> int \<Rightarrow> real \<Rightarrow> inventory_row" where
  "ex_stored p c s expiry stock sales =
     \<lparr>Product = p, Category = c, StockQty = stock, WeeklySales = sales,
      ExpiryDate = expiry, StoreID = s, Weather = ''Sunny'', HolidayFlag = 0\<rparr>"

definition ex_store :: "inventory_row list" where
  "ex_store = [ex_stored ''Milk'' ''Dairy'' ''S01'' (10 * us_per_day) 100 65,
               ex_stored ''Bread'' ''Bakery'' ''S02'' (3 * us_per_day) 40 30,
               ex_stored ''Milk'' ''Dairy'' ''S01'' (10 * us_per_day + 21600000000) 7 2]"

definition ex_world :: world where
  "ex_world = \<lparr>files = [''mock_inventory.csv'' \<mapsto> ex_store], manual_data = None\<rparr>"


text \<open>A row of the displayed frame, as the delete handler selects it.\<close>

definition ex_selected :: "string \<Rightarrow> string \<Rightarrow> string \<Rightarrow> int \<Rightarrow> annotated_row" where
  "ex_selected p c s expiry =
     \<lparr>Product = p, Category = c, StockQty = 100, WeeklySales = 65,
      ExpiryDate = expiry, StoreID = s, Weather = ''Sunny'', HolidayFlag = 0,
      DaysToExpire = 9, PredictedDemand = 65, RiskLevel = ''MEDIUM''\<rparr>"






section \<open>Properties\<close>

subsection \<open>Columns and masks\<close>

lemma mask_rows_map: "mask_rows df (map p df) = filter p df"
  by (induction df) (simp_all add: mask_rows_def)

lemma map2_map_upt: "map2 f xs (map g [0..<length xs]) = map (\<lambda>i. f (xs ! i) (g i)) [0..<length xs]"
proof (induction xs rule: rev_induct)
  case Nil
  show ?case by simp
next
  case (snoc x xs)
  have "map (\<lambda>i. f ((xs @ [x]) ! i) (g i)) [0..<length xs] = map (\<lambda>i. f (xs ! i) (g i)) [0..<length xs]"
    by (rule map_cong) (simp_all add: nth_append)
  with snoc show ?case by simp
qed

lemma map_nth_upt: "map (\<lambda>i. f (xs ! i)) [0..<length xs] = map f xs"
proof -
  have "map (\<lambda>i. f (xs ! i)) [0..<length xs] = map f (map ((!) xs) [0..<length xs])"
    by simp
  then show ?thesis by (simp only: map_nth)
qed

subsection \<open>The classifier, row by row\<close>

lemma classify_risk_rowwise: "classify_risk df = map with_risk df"
proof -
  let ?c1 = "map (\<lambda>r. PredictedDemand r < 0.7 * real_of_int (StockQty r) \<and> DaysToExpire r < 5) df"
  let ?c2 = "map (\<lambda>r. PredictedDemand r < 0.9 * real_of_int (StockQty r)
                      \<or> (5 \<le> DaysToExpire r \<and> DaysToExpire r < 8)) df"
  have c1: "series_and
           (series_lt (map PredictedDemand df) (scale_series 0.7 (map StockQty df)))
           (series_lt_const (map DaysToExpire df) 5) = ?c1"
    by (induction df) (simp_all add: series_and_def series_lt_def scale_series_def series_lt_const_def)
  have c2: "series_or
           (series_lt (map PredictedDemand df) (scale_series 0.9 (map StockQty df)))
           (series_and (series_ge_const (map DaysToExpire df) 5)
                       (series_lt_const (map DaysToExpire df) 8)) = ?c2"
    by (induction df)
       (simp_all add: series_and_def series_or_def series_lt_def scale_series_def
          series_lt_const_def series_ge_const_def)
  have "classify_risk df =
     map (\<lambda>i. predicted_row.extend (df ! i)
                 (annotated_row.fields (select_at [?c1, ?c2] [''HIGH'', ''MEDIUM''] ''LOW'' i)))
         [0..<length df]"
    unfolding classify_risk_def Let_def c1 c2 set_RiskLevel_def np_select_def
    by (rule map2_map_upt)
  also have "\<dots> = map (\<lambda>i. with_risk (df ! i)) [0..<length df]"
    by (rule map_cong) (simp_all add: with_risk_def risk_rule_def)
  also have "\<dots> = map with_risk df"
    by (rule map_nth_upt)
  finally show ?thesis .
qed


lemma nth_classify_risk: "i < length df \<Longrightarrow> classify_risk df ! i = with_risk (df ! i)"
  by (simp add: classify_risk_rowwise)

lemma RiskLevel_with_risk:
  "RiskLevel (with_risk r) = risk_rule (PredictedDemand r) (StockQty r) (DaysToExpire r)"
  by (simp add: with_risk_def predicted_row.defs annotated_row.defs)


lemma with_risk_fields:
  "PredictedDemand (with_risk r) = PredictedDemand r"
  "DaysToExpire (with_risk r) = DaysToExpire r"
  "StockQty (with_risk r) = StockQty r"
  "Category (with_risk r) = Category r"
  "Product (with_risk r) = Product r"
  "StoreID (with_risk r) = StoreID r"
  "ExpiryDate (with_risk r) = ExpiryDate r"
  by (simp_all add: with_risk_def predicted_row.defs annotated_row.defs)


subsection \<open>Claim C1: the three risk labels and their priority\<close>



subsection \<open>Claim C10: the label depends on three columns only\<close>

text \<open>
  C10. Two rows, of the same frame or of two frames, that agree on
  \<^verbatim>\<open>PredictedDemand\<close>, \<^verbatim>\<open>StockQty\<close> and \<^verbatim>\<open>DaysToExpire\<close> get the same
  \<^verbatim>\<open>RiskLevel\<close>, whatever their other columns and whatever the other rows hold.
\<close>

theorem classify_risk_three_fields_only:
  assumes "i < length df" and "j < length df'"
    and "PredictedDemand (df ! i) = PredictedDemand (df' ! j)"
    and "StockQty (df ! i) = StockQty (df' ! j)"
    and "DaysToExpire (df ! i) = DaysToExpire (df' ! j)"
  shows "RiskLevel (classify_risk df ! i) = RiskLevel (classify_risk df' ! j)"
  using assms by (simp add: nth_classify_risk RiskLevel_with_risk)

theorem classify_risk_three_fields_only_witness:
  "(0::nat) < length [ex_row ''Tea'' 100 65 3] \<and> (0::nat) < length ex_predicted \<and>
   PredictedDemand ([ex_row ''Tea'' 100 65 3] ! 0) = PredictedDemand (ex_predicted ! 0) \<and>
   StockQty ([ex_row ''Tea'' 100 65 3] ! 0) = StockQty (ex_predicted ! 0) \<and>
   DaysToExpire ([ex_row ''Tea'' 100 65 3] ! 0) = DaysToExpire (ex_predicted ! 0) \<and>
   Product ([ex_row ''Tea'' 100 65 3] ! 0) \<noteq> Product (ex_predicted ! 0) \<and>
   RiskLevel (classify_risk [ex_row ''Tea'' 100 65 3] ! 0) = RiskLevel (classify_risk ex_predicted ! 0)"
  using classify_risk_three_fields_only [of 0 "[ex_row ''Tea'' 100 65 3]" 0 ex_predicted]
  by (simp add: ex_predicted_def ex_row_def)

subsection \<open>Filtering by mask\<close>



lemma set_unique: "set (unique xs) = set xs"
  by (simp add: unique_def)



subsection \<open>Claim C3: an empty category selection selects everything\<close>


subsection \<open>Claim C2: the at-risk table\<close>



subsection \<open>Loading and the store handlers\<close>

lemma add_DaysToExpire_rowwise: "add_DaysToExpire today df = map (with_days today) df"
  by (induction df) (simp_all add: add_DaysToExpire_def set_DaysToExpire_def with_days_def)



lemma load_data_uploaded:
  "load_data (Some rows) today w = (Inr (map (with_days today) rows), w)"
  by (simp add: load_data_def and_then_def succeed_def add_DaysToExpire_rowwise)

lemma load_data_file:
  "files w ''mock_inventory.csv'' = Some rows \<Longrightarrow>
   load_data None today w = (Inr (map (with_days today) rows), w)"
  by (simp add: load_data_def and_then_def succeed_def read_csv_def add_DaysToExpire_rowwise)

lemma load_data_missing:
  "files w ''mock_inventory.csv'' = None \<Longrightarrow>
   load_data None today w = (Inl FileNotFoundError, w)"
  by (simp add: load_data_def and_then_def succeed_def read_csv_def)

lemma load_data_world: "snd (load_data uploaded_file today w) = w"
  by (cases uploaded_file; cases "files w ''mock_inventory.csv''")
     (simp_all add: load_data_uploaded load_data_file load_data_missing)


lemma delete_matching_filter:
  "delete_matching k full_df = filter (\<lambda>r. identity_of r \<noteq> k) full_df"
proof -
  obtain p c s e where k: "k = (p, c, s, e)" by (cases k) auto
  have "series_and
          (series_and
             (series_and (series_eq_const (map Product full_df) p)
                         (series_eq_const (map Category full_df) c))
             (series_eq_const (map StoreID full_df) s))
          (series_eq_const (map normalize_date (map ExpiryDate full_df)) e)
        = map (\<lambda>r. identity_of r = k) full_df"
    by (induction full_df)
       (simp_all add: series_and_def series_eq_const_def identity_of_def k)
  then show ?thesis
    by (simp add: delete_matching_def k series_not_def mask_rows_map comp_def)
qed

lemma confirm_delete_result:
  assumes "files w ''mock_inventory.csv'' = Some rows" and "i < length fdf"
  shows "confirm_delete fdf i w =
           (Inr Success_message,
            w\<lparr>files := (files w)(''mock_inventory.csv'' \<mapsto>
                  delete_matching (identity_of (fdf ! i)) rows)\<rparr>)"
  using assms
  by (simp add: confirm_delete_def try_except_def and_then_def read_csv_def loc_def
        succeed_def to_csv_def identity_of_def)

lemma confirm_delete_missing_file:
  assumes "files w ''mock_inventory.csv'' = None"
  shows "confirm_delete fdf i w = (Inr (Error_message FileNotFoundError), w)"
  using assms
  by (simp add: confirm_delete_def try_except_def and_then_def read_csv_def succeed_def)

lemma confirm_delete_bad_index:
  assumes "files w ''mock_inventory.csv'' = Some rows" and "\<not> i < length fdf"
  shows "confirm_delete fdf i w = (Inr (Error_message KeyError), w)"
  using assms
  by (simp add: confirm_delete_def try_except_def and_then_def read_csv_def loc_def
        succeed_def fail_with_def)

lemma world_files_same:
  "files w p = Some rows \<Longrightarrow> w\<lparr>files := (files w)(p \<mapsto> rows)\<rparr> = w"
  by (simp add: fun_upd_idem)


lemma ex_world_file: "files ex_world ''mock_inventory.csv'' = Some ex_store"
  by (simp add: ex_world_def)

subsection \<open>Claim C5: deleting by identity\<close>

text \<open>
  C5. When \<^verbatim>\<open>mock_inventory.csv\<close> exists and a row of the displayed frame is selected,
  \<open>delete_matching\<close> with a tuple (Product, Category, StoreID, normalized ExpiryDate)
  keeps, in order and unchanged, exactly the stored rows whose own tuple differs from it,
  so every row with that tuple is removed, duplicates included; the handler writes that
  result back, touches nothing else and reports success. When no stored row has the
  selected row's tuple the world is left as it was, and the handler still reports success.
\<close>

theorem confirm_delete_removes_matching:
  assumes "files w ''mock_inventory.csv'' = Some rows" and "i < length fdf"
  shows "delete_matching k rows = filter (\<lambda>r. identity_of r \<noteq> k) rows \<and>
         confirm_delete fdf i w =
           (Inr Success_message,
            w\<lparr>files := (files w)(''mock_inventory.csv'' \<mapsto>
                  filter (\<lambda>r. identity_of r \<noteq> identity_of (fdf ! i)) rows)\<rparr>) \<and>
         ((\<forall>r \<in> set rows. identity_of r \<noteq> identity_of (fdf ! i)) \<longrightarrow>
            confirm_delete fdf i w = (Inr Success_message, w))"
proof -
  have core: "delete_matching k rows = filter (\<lambda>r. identity_of r \<noteq> k) rows"
    by (rule delete_matching_filter)
  have handler: "confirm_delete fdf i w =
           (Inr Success_message,
            w\<lparr>files := (files w)(''mock_inventory.csv'' \<mapsto>
                  filter (\<lambda>r. identity_of r \<noteq> identity_of (fdf ! i)) rows)\<rparr>)"
    using assms by (simp only: confirm_delete_result delete_matching_filter)
  have noop: "(\<forall>r \<in> set rows. identity_of r \<noteq> identity_of (fdf ! i)) \<longrightarrow>
            confirm_delete fdf i w = (Inr Success_message, w)"
  proof
    assume "\<forall>r \<in> set rows. identity_of r \<noteq> identity_of (fdf ! i)"
    then have "filter (\<lambda>r. identity_of r \<noteq> identity_of (fdf ! i)) rows = rows"
      by (intro filter_True) simp
    with handler assms(1) show "confirm_delete fdf i w = (Inr Success_message, w)"
      by (simp add: world_files_same)
  qed
  from core handler noop show ?thesis by (intro conjI)
qed


theorem confirm_delete_removes_matching_witness:
  "files ex_world ''mock_inventory.csv'' = Some ex_store \<and>
   (0::nat) < length [ex_selected ''Milk'' ''Dairy'' ''S01'' (10 * us_per_day)] \<and>
   stored_rows (snd (confirm_delete [ex_selected ''Milk'' ''Dairy'' ''S01'' (10 * us_per_day)] 0 ex_world))
     = [ex_stored ''Bread'' ''Bakery'' ''S02'' (3 * us_per_day) 40 30] \<and>
   list_all (\<lambda>r. identity_of r \<noteq> identity_of (ex_selected ''Tea'' ''Dairy'' ''S01'' (10 * us_per_day)))
     ex_store \<and>
   confirm_delete [ex_selected ''Tea'' ''Dairy'' ''S01'' (10 * us_per_day)] 0 ex_world
     = (Inr Success_message, ex_world)"
proof -
  let ?m = "ex_selected ''Milk'' ''Dairy'' ''S01'' (10 * us_per_day)"
  let ?t = "ex_selected ''Tea'' ''Dairy'' ''S01'' (10 * us_per_day)"
  have csv: "files ex_world ''mock_inventory.csv'' = Some ex_store"
    by (rule ex_world_file)
  have len_m: "0 < length [?m]" and len_t: "0 < length [?t]"
    by simp_all
  have absent: "\<forall>r \<in> set ex_store. identity_of r \<noteq> identity_of ?t"
    by (simp add: ex_store_def ex_stored_def ex_selected_def identity_of_def)
  then have absent': "\<forall>r \<in> set ex_store. identity_of r \<noteq> identity_of ([?t] ! 0)"
    by simp
  have kept: "filter (\<lambda>r. identity_of r \<noteq> identity_of ?m) ex_store
                = [ex_stored ''Bread'' ''Bakery'' ''S02'' (3 * us_per_day) 40 30]"
    by (simp add: ex_store_def ex_stored_def ex_selected_def identity_of_def normalize_date_def
          us_per_day_def)
  from confirm_delete_removes_matching
         [where w = ex_world and rows = ex_store and i = 0 and fdf = "[?m]"
            and k = "identity_of ?m", OF csv len_m]
  have milk: "stored_rows (snd (confirm_delete [?m] 0 ex_world))
                = [ex_stored ''Bread'' ''Bakery'' ''S02'' (3 * us_per_day) 40 30]"
    by (simp add: kept stored_rows_def)
  from confirm_delete_removes_matching
         [where w = ex_world and rows = ex_store and i = 0 and fdf = "[?t]"
            and k = "identity_of ?t", OF csv len_t] absent'
  have tea: "confirm_delete [?t] 0 ex_world = (Inr Success_message, ex_world)"
    by blast
  from csv absent milk tea show ?thesis by (simp add: list_all_iff)
qed

subsection \<open>Claim C6: round trip through the store\<close>




subsection \<open>The pipeline reads and never writes\<close>

lemma and_then_world:
  assumes "snd (m w) = w" and "\<And>x. snd (f x w) = w"
  shows "snd (and_then m f w) = w"
proof (cases "m w")
  case (Pair r w')
  with assms(1) have w': "w' = w" by simp
  show ?thesis
  proof (cases r)
    case (Inl e)
    with Pair w' show ?thesis by (simp add: and_then_def)
  next
    case (Inr x)
    with Pair w' assms(2) [of x] show ?thesis by (simp add: and_then_def)
  qed
qed

lemma succeed_world: "snd (succeed x w) = w"
  by (simp add: succeed_def)

lemma lift_world: "snd (lift r w) = w"
  by (simp add: lift_def)

lemma session_get_world: "snd (session_get_manual_data w) = w"
  by (simp add: session_get_manual_data_def)

lemma pipeline_run_world: "snd (pipeline_run linreg uploaded_file today today' w) = w"
  unfolding pipeline_run_def
  by (intro and_then_world load_data_world session_get_world succeed_world lift_world)

lemma render_world: "snd (render linreg uploaded_file today today' sel w) = w"
  unfolding render_def
  by (intro and_then_world pipeline_run_world succeed_world)

subsection \<open>Claim C8: no side effect on the store\<close>

text \<open>
  C8. A pipeline run (load, days to expiry, fit, predict, classify), and a whole render
  (the run, then filter and sort), returns the world it was given: the files, and so the
  stored records, are unchanged, whatever the uploaded file, the clock, the regressor and
  the selection are, and whether the run succeeds or fails. The derived columns exist
  only in the returned frame; the rows of a file have the eight stored columns.
\<close>

theorem pipeline_leaves_store_unchanged:
  "snd (pipeline_run linreg uploaded_file today today' w) = w \<and>
   snd (render linreg uploaded_file today today' selected_category w) = w \<and>
   files (snd (render linreg uploaded_file today today' selected_category w)) = files w"
  by (simp add: pipeline_run_world render_world)


subsection \<open>Claim C7: running the pipeline twice\<close>



subsection \<open>Encoding and prediction\<close>











lemma raise_on_unknown_fails:
  "c \<notin> set (Category_values m) \<Longrightarrow> transform_row Raise_on_unknown m (c, s, w, h) = Inl ValueError"
  by (simp add: transform_row_def encode_value_def)

lemma train_model_values:
  assumes "train_model linreg df = Inr m"
  shows "set (Category_values m) = Category ` set df"
    and "set (StoreID_values m) = StoreID ` set df"
    and "set (Weather_values m) = Weather ` set df"
  using assms
  by (auto simp: train_model_def Let_def fit_categories_def set_unique
           split: sum.splits prod.splits)

subsection \<open>Claim C4: values not seen during fit\<close>



end
